theory Spec2Isabelle
  imports Main "HOL-Library.Word"
begin

section \<open>Values handled by \<open>Database.cpp\<close>\<close>

text \<open>
  A \<open>QByteArray\<close> is a list of bytes. A \<open>Uuid\<close> is a byte array (sixteen bytes when it
  comes from \<open>Uuid::random()\<close>); two of them are equal when their bytes are.
\<close>

type_synonym byte = "8 word"
type_synonym byteArray = "byte list"
type_synonym uuid = "byte list"

text \<open>\<open>Qt::TimeSpec\<close> and a \<open>QDateTime\<close>: milliseconds on the time line and the time spec.\<close>

datatype timeSpec = LocalTime | UTC | OffsetFromUTC | TimeZone

record qDateTime =
  dt_msecs :: nat
  dt_timeSpec :: timeSpec

text \<open>
  Modelled from the spec: \<open>struct DeletedObject\<close> is declared in \<open>Database.h\<close>, which is
  not among the sources; the spec gives it "the identity of the removed object and a UTC
  timestamp of deletion", and \<open>addDeletedObject\<close> sets its members \<open>uuid\<close> and
  \<open>deletionTime\<close>.
\<close>

record deletedObject =
  do_uuid :: uuid
  deletionTime :: qDateTime

text \<open>
  Modelled from the spec: \<open>enum CompressionAlgorithm\<close> and \<open>CompressionAlgorithmMax\<close> are
  declared in \<open>Database.h\<close>, which is not among the sources; the spec lists \<open>None\<close> and
  \<open>GZip\<close> "with a defined maximum enumerant value used for validation". A value of the
  enum is read as \<open>setCompressionAlgo\<close> reads it, through \<open>static_cast<quint32>\<close>.
\<close>

type_synonym compressionAlgorithm = "32 word"

definition CompressionNone :: compressionAlgorithm where
  "CompressionNone = 0"

definition CompressionGZip :: compressionAlgorithm where
  "CompressionGZip = 1"

definition CompressionAlgorithmMax :: "32 word" where
  "CompressionAlgorithmMax = CompressionGZip"

text \<open>
  Modelled from the spec: \<open>Uuid::isNull\<close> (class \<open>Uuid\<close> is not among the sources) holds
  of "the null/zero identity", the one whose bytes are all zero.
\<close>

definition Uuid_isNull :: "uuid \<Rightarrow> bool" where
  "Uuid_isNull u = list_all (\<lambda>b. b = 0) u"

text \<open>
  A \<open>Q_ASSERT\<close> whose condition is false aborts the call before it changes anything: the
  spec's \<open>InvariantViolation\<close>.
\<close>

datatype error = InvariantViolation

section \<open>The credential tree\<close>

text \<open>
  Modelled from the spec: the classes \<open>Entry\<close> and \<open>Group\<close> are declared in \<open>Entry.h\<close>
  and \<open>Group.h\<close>, which are not among the sources. The spec gives a Group an "identity,
  ordered sequence of child Groups, ordered sequence of Entries" and an Entry an
  "identity", in a "tree, no cycles"; \<open>Database.cpp\<close> reads them through \<open>uuid()\<close>,
  \<open>entries()\<close> and \<open>children()\<close>. \<open>Entry*\<close> and \<open>Group*\<close> are pointers, so an object is known
  by its address (\<open>entry_ref\<close>, \<open>group_ref\<close>) and two objects may carry the same identity.
\<close>

datatype entry = Entry (entry_ref: nat) (entry_uuid: uuid)

datatype group =
  Group (group_ref: nat) (group_uuid: uuid) (group_entries: "entry list")
    (group_children: "group list")

text \<open>The first loop of \<open>recFindEntry\<close>: \<open>Q_FOREACH (Entry* entry, group->entries())\<close>.\<close>

fun scanEntries :: "uuid \<Rightarrow> entry list \<Rightarrow> entry option" where
  "scanEntries u [] = None"
| "scanEntries u (e # es) = (if entry_uuid e = u then Some e else scanEntries u es)"

text \<open>
  \<open>Database::recFindEntry\<close>; \<open>recFindEntry_children\<close> is its second loop, over
  \<open>group->children()\<close>. The null pointer is \<open>None\<close>.
\<close>

fun recFindEntry :: "uuid \<Rightarrow> group \<Rightarrow> entry option"
  and recFindEntry_children :: "uuid \<Rightarrow> group list \<Rightarrow> entry option" where
  "recFindEntry u (Group r gu es cs) =
     (case scanEntries u es of
        Some e \<Rightarrow> Some e
      | None \<Rightarrow> recFindEntry_children u cs)"
| "recFindEntry_children u [] = None"
| "recFindEntry_children u (c # cs) =
     (case recFindEntry u c of
        Some e \<Rightarrow> Some e
      | None \<Rightarrow> recFindEntry_children u cs)"

text \<open>\<open>Database::recFindGroup\<close> and its loop over \<open>group->children()\<close>.\<close>

fun recFindGroup :: "uuid \<Rightarrow> group \<Rightarrow> group option"
  and recFindGroup_children :: "uuid \<Rightarrow> group list \<Rightarrow> group option" where
  "recFindGroup u (Group r gu es cs) =
     (if gu = u then Some (Group r gu es cs) else recFindGroup_children u cs)"
| "recFindGroup_children u [] = None"
| "recFindGroup_children u (c # cs) =
     (case recFindGroup u c of
        Some g \<Rightarrow> Some g
      | None \<Rightarrow> recFindGroup_children u cs)"

text \<open>
  The traversal in the words of the spec, to compare the code with: "depth-first pre-order
  search -- scans the current group's entries, then recurses into children in order", and
  for groups "checking the current node before its children".
\<close>

fun preorder_entries :: "group \<Rightarrow> entry list" where
  "preorder_entries (Group r gu es cs) = es @ concat (map preorder_entries cs)"

fun preorder_groups :: "group \<Rightarrow> group list" where
  "preorder_groups (Group r gu es cs) = Group r gu es cs # concat (map preorder_groups cs)"

definition spec_resolveEntry :: "uuid \<Rightarrow> group \<Rightarrow> entry option" where
  "spec_resolveEntry u root = find (\<lambda>e. entry_uuid e = u) (preorder_entries root)"

definition spec_resolveGroup :: "uuid \<Rightarrow> group \<Rightarrow> group option" where
  "spec_resolveGroup u root = find (\<lambda>g. group_uuid g = u) (preorder_groups root)"

text \<open>
  Modelled from the spec: \<open>Entry::setGroup\<close>, \<open>Entry::~Entry\<close>, \<open>Entry::group\<close>,
  \<open>Group::setParent\<close>, \<open>Group::~Group\<close> and \<open>Group::createRecycleBin\<close> are in
  \<open>Entry.cpp\<close> and \<open>Group.cpp\<close>, which are not among the sources. The spec: reparenting "is
  an explicit detach from old owner, attach to new owner operation", "ownership transfer,
  not a copy"; a destroyed object has its "ownership released, storage reclaimed";
  a recycle bin is "a new Group designated as the recycle holding area". Detaching removes
  the object with that address wherever the tree holds it; attaching appends it to the
  group with the target address.
\<close>

fun removeEntry :: "nat \<Rightarrow> group \<Rightarrow> group" where
  "removeEntry a (Group r gu es cs) =
     Group r gu (filter (\<lambda>e. entry_ref e \<noteq> a) es) (map (removeEntry a) cs)"

fun addEntry :: "nat \<Rightarrow> entry \<Rightarrow> group \<Rightarrow> group" where
  "addEntry target e (Group r gu es cs) =
     Group r gu (if r = target then es @ [e] else es) (map (addEntry target e) cs)"

fun removeGroup :: "nat \<Rightarrow> group \<Rightarrow> group" where
  "removeGroup a (Group r gu es cs) =
     Group r gu es (map (removeGroup a) (filter (\<lambda>c. group_ref c \<noteq> a) cs))"

fun addChild :: "nat \<Rightarrow> group \<Rightarrow> group \<Rightarrow> group" where
  "addChild target g (Group r gu es cs) =
     Group r gu es (map (addChild target g) cs @ (if r = target then [g] else []))"

definition Entry_setGroup :: "entry \<Rightarrow> nat \<Rightarrow> group \<Rightarrow> group" where
  "Entry_setGroup e target root = addEntry target e (removeEntry (entry_ref e) root)"

definition Entry_delete :: "entry \<Rightarrow> group \<Rightarrow> group" where
  "Entry_delete e root = removeEntry (entry_ref e) root"

definition Group_setParent :: "group \<Rightarrow> nat \<Rightarrow> group \<Rightarrow> group" where
  "Group_setParent g target root = addChild target g (removeGroup (group_ref g) root)"

definition Group_delete :: "group \<Rightarrow> group \<Rightarrow> group" where
  "Group_delete g root = removeGroup (group_ref g) root"

definition Group_createRecycleBin :: "nat \<Rightarrow> uuid \<Rightarrow> group" where
  "Group_createRecycleBin a u = Group a u [] []"

text \<open>
  Modelled from the spec: \<open>Entry::group\<close>, the "owning Group reference" of an entry, is
  the address of the group that holds the entry at address \<open>a\<close>. \<open>group_refs\<close> lists
  the addresses of the groups of a tree, in pre-order.
\<close>

definition Entry_group :: "nat \<Rightarrow> group \<Rightarrow> nat option" where
  "Entry_group a root =
     map_option group_ref
       (find (\<lambda>g. a \<in> set (map entry_ref (group_entries g))) (preorder_groups root))"

definition group_refs :: "group \<Rightarrow> nat list" where
  "group_refs root = map group_ref (preorder_groups root)"

section \<open>Metadata, the timer and the Database object\<close>

text \<open>
  Modelled from the spec: class \<open>Metadata\<close> is not among the sources. The spec gives it
  the "last-master-key-change timestamp, recycle-bin enable flag, reference to the
  designated recycle Group if one exists", the last one "a weak reference: if the recycle
  Group is later deleted, the reference must be treated as absent". The reference is kept
  as the group's address, as \<open>setRecycleBin(recycleBin)\<close> is handed a \<open>Group*\<close>.
\<close>

record metadata =
  md_masterKeyChanged :: qDateTime
  md_recycleBinEnabled :: bool
  md_recycleBin :: "nat option"

text \<open>
  Modelled from the spec: the setters \<open>Metadata::setMasterKeyChanged\<close> and
  \<open>Metadata::setRecycleBin\<close> store their argument.
\<close>

definition setMasterKeyChanged :: "qDateTime \<Rightarrow> metadata \<Rightarrow> metadata" where
  "setMasterKeyChanged t md = md\<lparr>md_masterKeyChanged := t\<rparr>"

definition setRecycleBin :: "nat \<Rightarrow> metadata \<Rightarrow> metadata" where
  "setRecycleBin a md = md\<lparr>md_recycleBin := Some a\<rparr>"

text \<open>
  Modelled from the spec: \<open>QTimer\<close>, as the Change Notifier of the spec describes it
  ("Idle, Pending, Idle"): a one-shot timer is inactive or pending with the time at which
  it expires. \<open>m_timer\<close> is made single-shot by the constructor and nothing changes that,
  so \<open>setSingleShot(true)\<close> has no field of its own.
\<close>

datatype qTimer = Inactive | Pending nat

text \<open>
  Modelled from the spec: \<open>QTimer::isActive\<close>, \<open>QTimer::stop\<close> and \<open>QTimer::start(msec)\<close>,
  the last one at the time \<open>current\<close> of the call: "(re)starts a one-shot timer with a
  fixed delay", "the delay always measures from the most recent mutation".
\<close>

definition isActive :: "qTimer \<Rightarrow> bool" where
  "isActive t = (case t of Inactive \<Rightarrow> False | Pending e \<Rightarrow> True)"

definition QTimer_stop :: "qTimer \<Rightarrow> qTimer" where
  "QTimer_stop t = Inactive"

definition QTimer_start :: "nat \<Rightarrow> nat \<Rightarrow> qTimer \<Rightarrow> qTimer" where
  "QTimer_start msec current t = Pending (current + msec)"

text \<open>The members of \<open>class Database\<close>; \<open>'k\<close> is the opaque \<open>CompositeKey\<close>.\<close>

record 'k database =
  m_metadata :: metadata
  m_rootGroup :: group
  m_timer :: qTimer
  m_deletedObjects :: "deletedObject list"
  m_cipher :: uuid
  m_compressionAlgo :: compressionAlgorithm
  m_transformSeed :: byteArray
  m_transformRounds :: "64 word"
  m_transformedMasterKey :: byteArray
  m_key :: 'k
  m_hasKey :: bool
  m_emitModified :: bool
  m_uuid :: uuid

text \<open>The signals of \<open>Database\<close>.\<close>

datatype signal = ModifiedImmediate | Modified | NameTextChanged

text \<open>
  A Database together with what surrounds it on the single thread it lives on: the clock
  of the event loop, in the timer's time units, and the signals emitted so far, each with
  the time of its emission.
\<close>

record 'k world =
  w_db :: "'k database"
  w_now :: nat
  w_signals :: "(nat \<times> signal) list"

text \<open>
  Modelled from the spec: \<open>Tools::currentDateTimeUtc\<close> (\<open>Tools.cpp\<close> is not among the
  sources) is "now (UTC)".
\<close>

definition currentDateTimeUtc :: "'k world \<Rightarrow> qDateTime" where
  "currentDateTimeUtc w = \<lparr>dt_msecs = w_now w, dt_timeSpec = UTC\<rparr>"

section \<open>The identity registry\<close>

text \<open>
  \<open>QHash<Uuid, Database*> Database::m_uuidMap\<close>: a map from identities to the addresses
  of Database objects. \<open>QHash::insert\<close> replaces the value of a key that is present;
  \<open>QHash::value(key, 0)\<close> is the null pointer (\<open>None\<close>) for a key that is absent.
\<close>

type_synonym uuidMap = "uuid \<rightharpoonup> nat"

definition databaseByUuid :: "uuid \<Rightarrow> uuidMap \<Rightarrow> nat option" where
  "databaseByUuid u reg = reg u"

text \<open>
  \<open>Database::Database()\<close>, at address \<open>this\<close>. What the constructor obtains from code
  that is not among the sources is a parameter: the two results of \<open>Uuid::random()\<close>
  (\<open>rnd_uuid\<close> for \<open>m_uuid\<close>, \<open>rnd_root\<close> for the root group), the address \<open>root_ref\<close> of
  \<open>new Group()\<close>, the fresh \<open>Metadata\<close> object \<open>md0\<close>, the default-constructed
  \<open>CompositeKey\<close> \<open>k0\<close> and the constant \<open>KeePass2::CIPHER_AES\<close>. The byte arrays
  and the tombstone list start empty. The four \<open>connect\<close> calls are the wiring that
  \<open>emit_modifiedImmediate\<close>, \<open>Metadata_modified\<close> and \<open>advance\<close> below carry out.
\<close>

definition Database_ctor ::
  "nat \<Rightarrow> uuid \<Rightarrow> uuid \<Rightarrow> nat \<Rightarrow> metadata \<Rightarrow> 'k \<Rightarrow> uuid \<Rightarrow> uuidMap \<Rightarrow> 'k database \<times> uuidMap" where
  "Database_ctor this rnd_uuid rnd_root root_ref md0 k0 cipher_aes reg =
     (\<lparr>m_metadata = md0,
       m_rootGroup = Group root_ref rnd_root [] [],
       m_timer = Inactive,
       m_deletedObjects = [],
       m_cipher = cipher_aes,
       m_compressionAlgo = CompressionGZip,
       m_transformSeed = [],
       m_transformRounds = 50000,
       m_transformedMasterKey = [],
       m_key = k0,
       m_hasKey = False,
       m_emitModified = False,
       m_uuid = rnd_uuid\<rparr>,
      reg(rnd_uuid \<mapsto> this))"

text \<open>\<open>Database::~Database()\<close>.\<close>

definition Database_dtor :: "'k database \<Rightarrow> uuidMap \<Rightarrow> uuidMap" where
  "Database_dtor d reg = reg(m_uuid d := None)"

section \<open>Change notification\<close>

text \<open>\<open>Database::startModifiedTimer\<close>.\<close>

definition startModifiedTimer :: "'k world \<Rightarrow> 'k world" where
  "startModifiedTimer w =
     (if \<not> m_emitModified (w_db w) then w
      else
        let t = m_timer (w_db w);
            t1 = (if isActive t then QTimer_stop t else t)
        in w\<lparr>w_db := (w_db w)\<lparr>m_timer := QTimer_start 150 (w_now w) t1\<rparr>\<rparr>)"

text \<open>
  \<open>Q_EMIT modifiedImmediate()\<close>: the signal is emitted and its slot
  \<open>startModifiedTimer\<close>, connected in the constructor, runs at once.
\<close>

definition emit_modifiedImmediate :: "'k world \<Rightarrow> 'k world" where
  "emit_modifiedImmediate w =
     startModifiedTimer (w\<lparr>w_signals := w_signals w @ [(w_now w, ModifiedImmediate)]\<rparr>)"

text \<open>
  The signal \<open>modified()\<close> of \<open>m_metadata\<close>, which the constructor connects to
  \<open>modifiedImmediate()\<close>.
\<close>

definition Metadata_modified :: "'k world \<Rightarrow> 'k world" where
  "Metadata_modified w = emit_modifiedImmediate w"

text \<open>
  Modelled from the spec: the event loop lets \<open>dt\<close> time units pass. "On timer expiry: the
  externally observable modified event fires exactly once, and the state returns to
  Idle": a pending timer whose expiry time is reached emits \<open>timeout()\<close>, which the
  constructor connects to the signal \<open>modified()\<close>; the signal is emitted at the expiry time
  and the one-shot timer is inactive afterwards.
\<close>

definition advance :: "nat \<Rightarrow> 'k world \<Rightarrow> 'k world" where
  "advance dt w =
     (case m_timer (w_db w) of
        Inactive \<Rightarrow> w\<lparr>w_now := w_now w + dt\<rparr>
      | Pending e \<Rightarrow>
          if e \<le> w_now w + dt
          then w\<lparr>w_db := (w_db w)\<lparr>m_timer := Inactive\<rparr>,
                 w_now := w_now w + dt,
                 w_signals := w_signals w @ [(e, Modified)]\<rparr>
          else w\<lparr>w_now := w_now w + dt\<rparr>)"

text \<open>\<open>Database::setEmitModified\<close>.\<close>

definition setEmitModified :: "bool \<Rightarrow> 'k world \<Rightarrow> 'k world" where
  "setEmitModified v w =
     (let d = w_db w;
          t = (if m_emitModified d \<and> \<not> v then QTimer_stop (m_timer d) else m_timer d)
      in w\<lparr>w_db := d\<lparr>m_timer := t, m_emitModified := v\<rparr>\<rparr>)"

section \<open>The key manager\<close>

text \<open>
  Modelled from the spec: the default of the third parameter of \<open>setKey\<close> is declared in
  \<open>Database.h\<close>, which is not among the sources; the spec gives
  \<open>setKey(compositeKey, seed, updateChangedTime=true)\<close>.
\<close>

definition updateChangedTime_default :: bool where
  "updateChangedTime_default = True"

text \<open>
  \<open>Database::setKey(key, transformSeed, updateChangedTime)\<close>. \<open>CompositeKey::transform\<close>
  is not among the sources and is the parameter \<open>tf\<close>.
\<close>

definition setKey ::
  "('k \<Rightarrow> byteArray \<Rightarrow> 64 word \<Rightarrow> byteArray) \<Rightarrow> 'k \<Rightarrow> byteArray \<Rightarrow> bool \<Rightarrow> 'k world \<Rightarrow> 'k world" where
  "setKey tf key transformSeed updateChangedTime w =
     (let d = w_db w;
          d1 = d\<lparr>m_key := key,
                 m_transformSeed := transformSeed,
                 m_transformedMasterKey := tf key transformSeed (m_transformRounds d),
                 m_hasKey := True\<rparr>;
          d2 = (if updateChangedTime
                then d1\<lparr>m_metadata := setMasterKeyChanged (currentDateTimeUtc w) (m_metadata d1)\<rparr>
                else d1)
      in emit_modifiedImmediate (w\<lparr>w_db := d2\<rparr>))"

text \<open>
  \<open>Database::setKey(key)\<close>. \<open>rnd\<close> is the byte array that \<open>Random::randomArray(32)\<close>
  returns in this call.
\<close>

definition setKey_key ::
  "('k \<Rightarrow> byteArray \<Rightarrow> 64 word \<Rightarrow> byteArray) \<Rightarrow> 'k \<Rightarrow> byteArray \<Rightarrow> 'k world \<Rightarrow> 'k world" where
  "setKey_key tf key rnd w = setKey tf key rnd updateChangedTime_default w"

text \<open>
  \<open>Database::setTransformRounds\<close>. \<open>rnd\<close> is what \<open>Random::randomArray(32)\<close> returns if
  the call reaches \<open>setKey(m_key)\<close>.
\<close>

definition setTransformRounds ::
  "('k \<Rightarrow> byteArray \<Rightarrow> 64 word \<Rightarrow> byteArray) \<Rightarrow> 64 word \<Rightarrow> byteArray \<Rightarrow> 'k world \<Rightarrow> 'k world" where
  "setTransformRounds tf rounds rnd w =
     (if m_transformRounds (w_db w) \<noteq> rounds
      then
        let w1 = w\<lparr>w_db := (w_db w)\<lparr>m_transformRounds := rounds\<rparr>\<rparr>
        in if m_hasKey (w_db w1) then setKey_key tf (m_key (w_db w1)) rnd w1 else w1
      else w)"

text \<open>\<open>Database::setCipher\<close> and \<open>Database::setCompressionAlgo\<close>.\<close>

definition setCipher :: "uuid \<Rightarrow> 'k world \<Rightarrow> error + 'k world" where
  "setCipher cipher w =
     (if Uuid_isNull cipher then Inl InvariantViolation
      else Inr (w\<lparr>w_db := (w_db w)\<lparr>m_cipher := cipher\<rparr>\<rparr>))"

definition setCompressionAlgo :: "compressionAlgorithm \<Rightarrow> 'k world \<Rightarrow> error + 'k world" where
  "setCompressionAlgo algo w =
     (if algo \<le> CompressionAlgorithmMax
      then Inr (w\<lparr>w_db := (w_db w)\<lparr>m_compressionAlgo := algo\<rparr>\<rparr>)
      else Inl InvariantViolation)"

text \<open>
  \<open>Database::setRootGroup\<close>; the argument is a pointer, null when \<open>None\<close>.
  \<open>m_rootGroup->setParent(this)\<close> makes the Database the owner of the group, which holding
  the tree in \<open>m_rootGroup\<close> already says.
\<close>

definition setRootGroup :: "group option \<Rightarrow> 'k world \<Rightarrow> error + 'k world" where
  "setRootGroup grp w =
     (case grp of
        None \<Rightarrow> Inl InvariantViolation
      | Some g \<Rightarrow> Inr (w\<lparr>w_db := (w_db w)\<lparr>m_rootGroup := g\<rparr>\<rparr>))"

section \<open>The tombstone ledger\<close>

text \<open>\<open>Database::deletedObjects\<close> and the two overloads of \<open>Database::addDeletedObject\<close>.\<close>

definition deletedObjects :: "'k world \<Rightarrow> deletedObject list" where
  "deletedObjects w = m_deletedObjects (w_db w)"

definition addDeletedObject :: "deletedObject \<Rightarrow> 'k world \<Rightarrow> error + 'k world" where
  "addDeletedObject delObj w =
     (if dt_timeSpec (deletionTime delObj) = UTC
      then Inr (w\<lparr>w_db := (w_db w)\<lparr>m_deletedObjects := m_deletedObjects (w_db w) @ [delObj]\<rparr>\<rparr>)
      else Inl InvariantViolation)"

definition addDeletedObject_uuid :: "uuid \<Rightarrow> 'k world \<Rightarrow> error + 'k world" where
  "addDeletedObject_uuid u w =
     addDeletedObject \<lparr>do_uuid = u, deletionTime = currentDateTimeUtc w\<rparr> w"

section \<open>The recycle policy\<close>

text \<open>
  Modelled from the spec: \<open>Metadata::recycleBin\<close>, the weak reference, is null (\<open>None\<close>)
  when no recycle group is recorded or the recorded one is no longer in the tree.
\<close>

definition recycleBin :: "'k world \<Rightarrow> nat option" where
  "recycleBin w =
     (case md_recycleBin (m_metadata (w_db w)) of
        None \<Rightarrow> None
      | Some a \<Rightarrow> if a \<in> set (group_refs (m_rootGroup (w_db w))) then Some a else None)"

text \<open>
  Modelled from the spec: \<open>Group::setParent\<close> on a group that has no owner yet only
  attaches it; \<open>createRecycleBin\<close> "attaches it as a child of the root group".
\<close>

definition attachToRoot :: "group \<Rightarrow> group \<Rightarrow> group" where
  "attachToRoot g root =
     (case root of Group r gu es cs \<Rightarrow> Group r gu es (cs @ [g]))"

text \<open>
  \<open>Database::createRecycleBin\<close>. \<open>a\<close> is the address of the Group that
  \<open>Group::createRecycleBin()\<close> allocates and \<open>u\<close> the identity it is given.
\<close>

definition createRecycleBin :: "nat \<Rightarrow> uuid \<Rightarrow> 'k world \<Rightarrow> 'k world" where
  "createRecycleBin a u w =
     (let d = w_db w;
          bin = Group_createRecycleBin a u
      in w\<lparr>w_db := d\<lparr>m_rootGroup := attachToRoot bin (m_rootGroup d),
                      m_metadata := setRecycleBin (group_ref bin) (m_metadata d)\<rparr>\<rparr>)"

text \<open>
  \<open>Database::recycleEntry\<close> and \<open>Database::recycleGroup\<close>. \<open>a\<close> and \<open>u\<close> are handed to
  \<open>createRecycleBin\<close> when it is called. After the first \<open>if\<close> the recycle bin is never
  null (lemma \<open>recycleBin_ensured\<close>), so the \<open>None\<close> case is not reached.
\<close>

definition recycleEntry :: "entry \<Rightarrow> nat \<Rightarrow> uuid \<Rightarrow> 'k world \<Rightarrow> 'k world" where
  "recycleEntry e a u w =
     (if md_recycleBinEnabled (m_metadata (w_db w))
      then
        let w1 = (if recycleBin w = None then createRecycleBin a u w else w)
        in (case recycleBin w1 of
              None \<Rightarrow> w1
            | Some b \<Rightarrow>
                w1\<lparr>w_db := (w_db w1)\<lparr>m_rootGroup := Entry_setGroup e b (m_rootGroup (w_db w1))\<rparr>\<rparr>)
      else w\<lparr>w_db := (w_db w)\<lparr>m_rootGroup := Entry_delete e (m_rootGroup (w_db w))\<rparr>\<rparr>)"

definition recycleGroup :: "group \<Rightarrow> nat \<Rightarrow> uuid \<Rightarrow> 'k world \<Rightarrow> 'k world" where
  "recycleGroup g a u w =
     (if md_recycleBinEnabled (m_metadata (w_db w))
      then
        let w1 = (if recycleBin w = None then createRecycleBin a u w else w)
        in (case recycleBin w1 of
              None \<Rightarrow> w1
            | Some b \<Rightarrow>
                w1\<lparr>w_db := (w_db w1)\<lparr>m_rootGroup := Group_setParent g b (m_rootGroup (w_db w1))\<rparr>\<rparr>)
      else w\<lparr>w_db := (w_db w)\<lparr>m_rootGroup := Group_delete g (m_rootGroup (w_db w))\<rparr>\<rparr>)"

text \<open>\<open>Database::resolveEntry\<close> and \<open>Database::resolveGroup\<close>.\<close>

definition resolveEntry :: "uuid \<Rightarrow> 'k world \<Rightarrow> entry option" where
  "resolveEntry u w = recFindEntry u (m_rootGroup (w_db w))"

definition resolveGroup :: "uuid \<Rightarrow> 'k world \<Rightarrow> group option" where
  "resolveGroup u w = recFindGroup u (m_rootGroup (w_db w))"

section \<open>Sequences of calls\<close>

text \<open>
  The calls a client can make on a Database (the mutators of \<open>Database.cpp\<close>, each with
  the values it draws from outside), the signal \<open>modified()\<close> that its Metadata raises on
  its own account, and the passing of time. A call whose \<open>Q_ASSERT\<close> fails aborts the
  sequence.
\<close>

datatype 'k call =
    SetRootGroup "group option"
  | AddDeletedObject deletedObject
  | AddDeletedObjectUuid uuid
  | SetCipher uuid
  | SetCompressionAlgo compressionAlgorithm
  | SetTransformRounds "64 word" byteArray
  | SetKey 'k byteArray bool
  | SetKeyKey 'k byteArray
  | CreateRecycleBin nat uuid
  | RecycleEntry entry nat uuid
  | RecycleGroup group nat uuid
  | SetEmitModified bool
  | MetadataModified
  | Advance nat

fun step ::
  "('k \<Rightarrow> byteArray \<Rightarrow> 64 word \<Rightarrow> byteArray) \<Rightarrow> 'k call \<Rightarrow> 'k world \<Rightarrow> error + 'k world" where
  "step tf (SetRootGroup g) w = setRootGroup g w"
| "step tf (AddDeletedObject x) w = addDeletedObject x w"
| "step tf (AddDeletedObjectUuid u) w = addDeletedObject_uuid u w"
| "step tf (SetCipher c) w = setCipher c w"
| "step tf (SetCompressionAlgo algo) w = setCompressionAlgo algo w"
| "step tf (SetTransformRounds n rnd) w = Inr (setTransformRounds tf n rnd w)"
| "step tf (SetKey k seed upd) w = Inr (setKey tf k seed upd w)"
| "step tf (SetKeyKey k rnd) w = Inr (setKey_key tf k rnd w)"
| "step tf (CreateRecycleBin a u) w = Inr (createRecycleBin a u w)"
| "step tf (RecycleEntry e a u) w = Inr (recycleEntry e a u w)"
| "step tf (RecycleGroup g a u) w = Inr (recycleGroup g a u w)"
| "step tf (SetEmitModified v) w = Inr (setEmitModified v w)"
| "step tf MetadataModified w = Inr (Metadata_modified w)"
| "step tf (Advance dt) w = Inr (advance dt w)"

fun run ::
  "('k \<Rightarrow> byteArray \<Rightarrow> 64 word \<Rightarrow> byteArray) \<Rightarrow> 'k call list \<Rightarrow> 'k world \<Rightarrow> error + 'k world" where
  "run tf [] w = Inr w"
| "run tf (c # cs) w =
     (case step tf c w of
        Inl err \<Rightarrow> Inl err
      | Inr w1 \<Rightarrow> run tf cs w1)"

text \<open>A sequence of \<open>recycleEntry\<close> calls, each with its entry and the values it may draw.\<close>

fun recycleEntries :: "(entry \<times> nat \<times> uuid) list \<Rightarrow> 'k world \<Rightarrow> 'k world" where
  "recycleEntries [] w = w"
| "recycleEntries ((e, a, u) # xs) w = recycleEntries xs (recycleEntry e a u w)"

text \<open>The \<open>modified()\<close> signals in a trace of emissions.\<close>

definition modifiedSignals :: "(nat \<times> signal) list \<Rightarrow> (nat \<times> signal) list" where
  "modifiedSignals tr = filter (\<lambda>x. snd x = Modified) tr"

text \<open>
  A burst of \<open>n\<close> immediate events, \<open>gap\<close> time units apart: the first at the current
  time, each further one after the event loop has let \<open>gap\<close> units pass.
\<close>

fun burst :: "nat \<Rightarrow> nat \<Rightarrow> 'k world \<Rightarrow> 'k world" where
  "burst 0 gap w = w"
| "burst (Suc 0) gap w = emit_modifiedImmediate w"
| "burst (Suc (Suc n)) gap w = emit_modifiedImmediate (advance gap (burst (Suc n) gap w))"

section \<open>Sample inputs\<close>

text \<open>
  Concrete values on which the theorems below are instantiated: sixteen-byte identities, a
  stand-in for \<open>CompositeKey::transform\<close> over keys that are byte arrays, a Metadata
  object, a freshly constructed Database (instance 1) at time 1000 with the registry it
  leaves, the same Database after a first \<open>setKey\<close>, and the same Database holding a tree
  of four groups and five entries.
\<close>

definition example_uuid :: "byte \<Rightarrow> uuid" where
  "example_uuid b = replicate 16 b"

definition example_transform :: "byteArray \<Rightarrow> byteArray \<Rightarrow> 64 word \<Rightarrow> byteArray" where
  "example_transform key seed rounds = key @ seed @ [ucast rounds]"

definition example_metadata :: metadata where
  "example_metadata =
     \<lparr>md_masterKeyChanged = \<lparr>dt_msecs = 0, dt_timeSpec = UTC\<rparr>,
      md_recycleBinEnabled = True,
      md_recycleBin = None\<rparr>"

definition example_fresh :: "byteArray world" where
  "example_fresh =
     \<lparr>w_db = fst (Database_ctor 1 (example_uuid 1) (example_uuid 2) 7 example_metadata []
               (example_uuid 9) Map.empty),
      w_now = 1000,
      w_signals = []\<rparr>"

definition example_registry :: uuidMap where
  "example_registry =
     snd (Database_ctor 1 (example_uuid 1) (example_uuid 2) 7 example_metadata
            ([] :: byteArray) (example_uuid 9) Map.empty)"

definition example_keyed :: "byteArray world" where
  "example_keyed = setKey example_transform [5] (replicate 32 1) False example_fresh"

definition example_tree :: group where
  "example_tree =
     Group 1 (example_uuid 20) [Entry 10 (example_uuid 1)]
       [Group 2 (example_uuid 5) [Entry 11 (example_uuid 2)]
          [Group 3 (example_uuid 6) [Entry 12 (example_uuid 3)] []],
        Group 4 (example_uuid 6) [Entry 13 (example_uuid 3), Entry 14 (example_uuid 2)] []]"

definition example_vault :: "byteArray world" where
  "example_vault = example_fresh\<lparr>w_db := (w_db example_fresh)\<lparr>m_rootGroup := example_tree\<rparr>\<rparr>"

definition example_vault_norecycle :: "byteArray world" where
  "example_vault_norecycle =
     example_vault\<lparr>w_db := (w_db example_vault)\<lparr>m_metadata :=
       example_metadata\<lparr>md_recycleBinEnabled := False\<rparr>\<rparr>\<rparr>"

section \<open>Facts about the sample inputs\<close>

lemma example_fresh_db:
  "w_db example_fresh =
     \<lparr>m_metadata = example_metadata, m_rootGroup = Group 7 (example_uuid 2) [] [], m_timer = Inactive,
      m_deletedObjects = [], m_cipher = example_uuid 9, m_compressionAlgo = CompressionGZip,
      m_transformSeed = [], m_transformRounds = 50000, m_transformedMasterKey = [],
      m_key = [], m_hasKey = False, m_emitModified = False, m_uuid = example_uuid 1\<rparr>"
  "w_now example_fresh = 1000" "w_signals example_fresh = []"
  by (simp_all add: example_fresh_def Database_ctor_def)

lemma example_vault_db:
  "w_db example_vault =
     \<lparr>m_metadata = example_metadata, m_rootGroup = example_tree, m_timer = Inactive,
      m_deletedObjects = [], m_cipher = example_uuid 9, m_compressionAlgo = CompressionGZip,
      m_transformSeed = [], m_transformRounds = 50000, m_transformedMasterKey = [],
      m_key = [], m_hasKey = False, m_emitModified = False, m_uuid = example_uuid 1\<rparr>"
  "w_now example_vault = 1000" "w_signals example_vault = []"
  by (simp_all add: example_vault_def example_fresh_db)

lemma example_vault_norecycle_db:
  "w_db example_vault_norecycle =
     \<lparr>m_metadata = example_metadata\<lparr>md_recycleBinEnabled := False\<rparr>,
      m_rootGroup = example_tree, m_timer = Inactive,
      m_deletedObjects = [], m_cipher = example_uuid 9, m_compressionAlgo = CompressionGZip,
      m_transformSeed = [], m_transformRounds = 50000, m_transformedMasterKey = [],
      m_key = [], m_hasKey = False, m_emitModified = False, m_uuid = example_uuid 1\<rparr>"
  by (simp add: example_vault_norecycle_def example_vault_db)

section \<open>Resolution by identity\<close>

lemma scanEntries_find: "scanEntries u es = find (\<lambda>e. entry_uuid e = u) es"
  by (induction es) auto

lemma find_app:
  "find P (xs @ ys) = (case find P xs of Some x \<Rightarrow> Some x | None \<Rightarrow> find P ys)"
  by (induction xs) auto

lemma recFindEntry_preorder:
  "recFindEntry u g = find (\<lambda>e. entry_uuid e = u) (preorder_entries g)"
  "recFindEntry_children u cs = find (\<lambda>e. entry_uuid e = u) (concat (map preorder_entries cs))"
  by (induction u g and u cs rule: recFindEntry_recFindEntry_children.induct)
     (auto simp: scanEntries_find find_app split: option.splits)

lemma recFindGroup_preorder:
  "recFindGroup u g = find (\<lambda>x. group_uuid x = u) (preorder_groups g)"
  "recFindGroup_children u cs = find (\<lambda>x. group_uuid x = u) (concat (map preorder_groups cs))"
  by (induction u g and u cs rule: recFindGroup_recFindGroup_children.induct)
     (auto simp: find_app split: option.splits)

text \<open>
  Claim C4. On every finite tree and for every identity, \<open>resolveEntry\<close> is the
  depth-first pre-order search of the spec: it returns the first entry, in the order "the
  group's entries, then the child groups in order", whose identity is the one looked for,
  and \<open>resolveGroup\<close> returns the first group in pre-order (a group before its
  children) with that identity. Both are total functions; the result is absent (\<open>None\<close>,
  not an error) exactly when no entry, respectively no group, of the tree has the identity.
\<close>

theorem resolve_is_preorder_search:
  "resolveEntry u w = spec_resolveEntry u (m_rootGroup (w_db w)) \<and>
   resolveGroup u w = spec_resolveGroup u (m_rootGroup (w_db w)) \<and>
   ((resolveEntry u w = None) = (u \<notin> set (map entry_uuid (preorder_entries (m_rootGroup (w_db w)))))) \<and>
   ((resolveGroup u w = None) = (u \<notin> set (map group_uuid (preorder_groups (m_rootGroup (w_db w))))))"
  by (auto simp: resolveEntry_def resolveGroup_def spec_resolveEntry_def spec_resolveGroup_def
      recFindEntry_preorder recFindGroup_preorder find_None_iff)

theorem resolve_is_preorder_search_witness:
  "resolveEntry (example_uuid 3) example_vault = Some (Entry 12 (example_uuid 3)) \<and>
   resolveEntry (example_uuid 7) example_vault = None \<and>
   resolveGroup (example_uuid 6) example_vault
     = Some (Group 3 (example_uuid 6) [Entry 12 (example_uuid 3)] []) \<and>
   resolveGroup (example_uuid 7) example_vault = None"
  using resolve_is_preorder_search [of "example_uuid 3" example_vault]
    resolve_is_preorder_search [of "example_uuid 7" example_vault]
    resolve_is_preorder_search [of "example_uuid 6" example_vault]
  by (simp add: example_vault_db example_tree_def spec_resolveEntry_def spec_resolveGroup_def
      example_uuid_def)

section \<open>The key manager\<close>

lemma setKey_db:
  "w_db (setKey tf key seed upd w) =
     (w_db w)\<lparr>m_key := key, m_transformSeed := seed,
       m_transformedMasterKey := tf key seed (m_transformRounds (w_db w)),
       m_hasKey := True,
       m_metadata := (if upd then setMasterKeyChanged (currentDateTimeUtc w) (m_metadata (w_db w))
                      else m_metadata (w_db w)),
       m_timer := (if m_emitModified (w_db w) then Pending (w_now w + 150) else m_timer (w_db w))\<rparr>"
  by (simp add: setKey_def emit_modifiedImmediate_def startModifiedTimer_def Let_def
      QTimer_start_def currentDateTimeUtc_def)

lemma setKey_signals:
  "w_signals (setKey tf key seed upd w) = w_signals w @ [(w_now w, ModifiedImmediate)]"
  by (simp add: setKey_def emit_modifiedImmediate_def startModifiedTimer_def Let_def)

lemma setKey_now: "w_now (setKey tf key seed upd w) = w_now w"
  by (simp add: setKey_def emit_modifiedImmediate_def startModifiedTimer_def Let_def)

lemma example_keyed_db:
  "w_db example_keyed =
     \<lparr>m_metadata = example_metadata, m_rootGroup = Group 7 (example_uuid 2) [] [], m_timer = Inactive,
      m_deletedObjects = [], m_cipher = example_uuid 9, m_compressionAlgo = CompressionGZip,
      m_transformSeed = replicate 32 1, m_transformRounds = 50000,
      m_transformedMasterKey = example_transform [5] (replicate 32 1) 50000,
      m_key = [5], m_hasKey = True, m_emitModified = False, m_uuid = example_uuid 1\<rparr>"
  "w_now example_keyed = 1000" "w_signals example_keyed = [(1000, ModifiedImmediate)]"
  by (simp_all add: example_keyed_def setKey_db setKey_now setKey_signals example_fresh_db)

text \<open>
  Claim C2. After \<open>setKey(key, seed, updateChangedTime)\<close> on any Database the stored
  composite key is \<open>key\<close>, the stored transform seed is \<open>seed\<close>, the transformed master
  key is \<open>key.transform(seed, transformRounds())\<close>, \<open>hasKey()\<close> holds, the master-key-changed
  time of the Metadata is the current UTC time when \<open>updateChangedTime\<close> is true and is
  untouched when it is false, and \<open>modifiedImmediate()\<close> has been emitted, at the time of the
  call, in either case.
\<close>

theorem setKey_effect:
  "m_key (w_db (setKey tf key seed upd w)) = key \<and>
   m_transformSeed (w_db (setKey tf key seed upd w)) = seed \<and>
   m_transformedMasterKey (w_db (setKey tf key seed upd w)) = tf key seed (m_transformRounds (w_db w)) \<and>
   m_transformRounds (w_db (setKey tf key seed upd w)) = m_transformRounds (w_db w) \<and>
   m_hasKey (w_db (setKey tf key seed upd w)) \<and>
   md_masterKeyChanged (m_metadata (w_db (setKey tf key seed upd w))) =
     (if upd then \<lparr>dt_msecs = w_now w, dt_timeSpec = UTC\<rparr>
      else md_masterKeyChanged (m_metadata (w_db w))) \<and>
   w_signals (setKey tf key seed upd w) = w_signals w @ [(w_now w, ModifiedImmediate)]"
  by (simp add: setKey_db setKey_signals setMasterKeyChanged_def currentDateTimeUtc_def)

theorem setKey_effect_witness:
  "m_key (w_db (setKey example_transform [6] [8] True example_keyed)) = [6] \<and>
   m_transformSeed (w_db (setKey example_transform [6] [8] True example_keyed)) = [8] \<and>
   m_transformedMasterKey (w_db (setKey example_transform [6] [8] True example_keyed))
     = example_transform [6] [8] 50000 \<and>
   md_masterKeyChanged (m_metadata (w_db (setKey example_transform [6] [8] True example_keyed)))
     = \<lparr>dt_msecs = 1000, dt_timeSpec = UTC\<rparr> \<and>
   md_masterKeyChanged (m_metadata (w_db (setKey example_transform [6] [8] False example_keyed)))
     = \<lparr>dt_msecs = 0, dt_timeSpec = UTC\<rparr> \<and>
   w_signals (setKey example_transform [6] [8] False example_keyed)
     = [(1000, ModifiedImmediate), (1000, ModifiedImmediate)]"
  using setKey_effect [of example_transform "[6]" "[8]" True example_keyed]
    setKey_effect [of example_transform "[6]" "[8]" False example_keyed]
  by (simp add: example_keyed_db example_metadata_def)

text \<open>
  Claim C5. \<open>setTransformRounds(r)\<close> with \<open>r\<close> equal to the current round count changes
  nothing at all: the transformed master key, the seed, the composite key and every other
  member are as before, and no signal is emitted.
\<close>

theorem setTransformRounds_same:
  "m_transformRounds (w_db w) = r \<Longrightarrow> setTransformRounds tf r rnd w = w"
  by (simp add: setTransformRounds_def)

theorem setTransformRounds_same_witness:
  "m_transformRounds (w_db example_keyed) = 50000 \<and>
   setTransformRounds example_transform 50000 (replicate 32 2) example_keyed = example_keyed"
  using setTransformRounds_same [of example_keyed 50000 example_transform "replicate 32 2"]
  by (simp add: example_keyed_db)

text \<open>
  Claim C9. On a Database with a key set, \<open>setTransformRounds\<close> with a value different
  from the current one is \<open>setKey\<close> on the stored key with \<open>updateChangedTime\<close> at its
  default, which is true; so besides recomputing the transformed key it sets the
  master-key-changed time of the Metadata to the current UTC time and emits
  \<open>modifiedImmediate()\<close>.
\<close>

theorem setTransformRounds_changes_timestamp:
  assumes "m_hasKey (w_db w)" and "m_transformRounds (w_db w) \<noteq> n"
  shows "setTransformRounds tf n rnd w =
           setKey tf (m_key (w_db w)) rnd updateChangedTime_default
             (w\<lparr>w_db := (w_db w)\<lparr>m_transformRounds := n\<rparr>\<rparr>) \<and>
         updateChangedTime_default \<and>
         md_masterKeyChanged (m_metadata (w_db (setTransformRounds tf n rnd w))) =
           \<lparr>dt_msecs = w_now w, dt_timeSpec = UTC\<rparr> \<and>
         w_signals (setTransformRounds tf n rnd w) = w_signals w @ [(w_now w, ModifiedImmediate)]"
  using assms
  by (simp add: setTransformRounds_def setKey_key_def updateChangedTime_default_def Let_def
      setKey_db setKey_signals setMasterKeyChanged_def currentDateTimeUtc_def)

theorem setTransformRounds_changes_timestamp_witness:
  "m_hasKey (w_db example_keyed) \<and>
   m_transformRounds (w_db example_keyed) \<noteq> 6000 \<and>
   md_masterKeyChanged (m_metadata (w_db example_keyed)) = \<lparr>dt_msecs = 0, dt_timeSpec = UTC\<rparr> \<and>
   md_masterKeyChanged (m_metadata (w_db (setTransformRounds example_transform 6000 (replicate 32 2) example_keyed)))
     = \<lparr>dt_msecs = 1000, dt_timeSpec = UTC\<rparr> \<and>
   w_signals (setTransformRounds example_transform 6000 (replicate 32 2) example_keyed)
     = [(1000, ModifiedImmediate), (1000, ModifiedImmediate)]"
  using setTransformRounds_changes_timestamp [of example_keyed 6000 example_transform "replicate 32 2"]
  by (simp add: example_keyed_db example_metadata_def setKey_db setKey_signals
      setMasterKeyChanged_def currentDateTimeUtc_def updateChangedTime_default_def)

text \<open>
  Claim C1, as the code has it. On a Database with a key set, \<open>setTransformRounds(n)\<close>
  with \<open>n\<close> different from the current round count recomputes the transformed master key at
  once from the stored composite key, but with the fresh seed that \<open>setKey(m_key)\<close> draws
  from \<open>Random::randomArray(32)\<close>: afterwards the transformed master key is
  \<open>key.transform(new seed, n)\<close>, the stored seed is the new seed, and the composite key is the
  one stored before.
\<close>

theorem setTransformRounds_rekeys_fresh_seed:
  assumes "m_hasKey (w_db w)" and "m_transformRounds (w_db w) \<noteq> n"
  shows "m_transformedMasterKey (w_db (setTransformRounds tf n rnd w)) = tf (m_key (w_db w)) rnd n \<and>
         m_transformSeed (w_db (setTransformRounds tf n rnd w)) = rnd \<and>
         m_key (w_db (setTransformRounds tf n rnd w)) = m_key (w_db w) \<and>
         m_transformRounds (w_db (setTransformRounds tf n rnd w)) = n \<and>
         m_hasKey (w_db (setTransformRounds tf n rnd w))"
  using assms
  by (simp add: setTransformRounds_def setKey_key_def Let_def setKey_db)

theorem setTransformRounds_rekeys_fresh_seed_witness:
  "m_hasKey (w_db example_keyed) \<and>
   m_transformRounds (w_db example_keyed) \<noteq> 6000 \<and>
   m_transformedMasterKey (w_db (setTransformRounds example_transform 6000 (replicate 32 2) example_keyed))
     = example_transform [5] (replicate 32 2) 6000 \<and>
   m_transformSeed (w_db (setTransformRounds example_transform 6000 (replicate 32 2) example_keyed))
     = replicate 32 2"
  using setTransformRounds_rekeys_fresh_seed [of example_keyed 6000 example_transform "replicate 32 2"]
  by (simp add: example_keyed_db)

text \<open>
  The claim as the spec words it (the seed stored before the call is kept and used) fails:
  a Database keyed with the seed of thirty-two bytes 1, whose rounds are changed from 50000
  to 6000 while the random source returns thirty-two bytes 2, ends with the new seed, and
  its transformed master key is not the transform under the old seed.
\<close>

theorem setTransformRounds_keeps_seed_counterexample:
  "m_hasKey (w_db example_keyed) \<and>
   m_transformRounds (w_db example_keyed) \<noteq> 6000 \<and>
   m_transformSeed (w_db (setTransformRounds example_transform 6000 (replicate 32 2) example_keyed))
     \<noteq> m_transformSeed (w_db example_keyed) \<and>
   m_transformedMasterKey (w_db (setTransformRounds example_transform 6000 (replicate 32 2) example_keyed))
     \<noteq> example_transform (m_key (w_db example_keyed)) (m_transformSeed (w_db example_keyed)) 6000"
  by (simp add: setTransformRounds_def setKey_key_def Let_def setKey_db example_keyed_db
      example_transform_def)

section \<open>The tombstone ledger\<close>

lemmas call_defs =
  setRootGroup_def addDeletedObject_def addDeletedObject_uuid_def setCipher_def
  setCompressionAlgo_def setTransformRounds_def setKey_def setKey_key_def createRecycleBin_def
  recycleEntry_def recycleGroup_def setEmitModified_def Metadata_modified_def advance_def
  emit_modifiedImmediate_def startModifiedTimer_def

lemma step_ledger:
  assumes "step tf c w = Inr w'"
  shows "\<exists>zs. deletedObjects w' = deletedObjects w @ zs"
  using assms
  by (cases c)
     (auto simp: call_defs deletedObjects_def Let_def split: if_splits option.splits qTimer.splits)

lemma run_ledger:
  assumes "run tf cs w = Inr w'"
  shows "\<exists>zs. deletedObjects w' = deletedObjects w @ zs"
  using assms
proof (induction cs arbitrary: w)
  case Nil
  then show ?case by simp
next
  case (Cons c cs)
  from Cons.prems obtain w1 where s: "step tf c w = Inr w1" and r: "run tf cs w1 = Inr w'"
    by (auto split: sum.splits)
  from step_ledger[OF s] Cons.IH[OF r] show ?case by auto
qed

lemma addDeletedObject_uuid_eq:
  "addDeletedObject_uuid u w =
     Inr (w\<lparr>w_db := (w_db w)\<lparr>m_deletedObjects :=
        deletedObjects w @ [\<lparr>do_uuid = u, deletionTime = \<lparr>dt_msecs = w_now w, dt_timeSpec = UTC\<rparr>\<rparr>]\<rparr>\<rparr>)"
  by (simp add: addDeletedObject_uuid_def addDeletedObject_def currentDateTimeUtc_def deletedObjects_def)

lemma run_uuids:
  "\<exists>w'. run tf (map AddDeletedObjectUuid us) w = Inr w' \<and>
        deletedObjects w' = deletedObjects w @
          map (\<lambda>u. \<lparr>do_uuid = u, deletionTime = \<lparr>dt_msecs = w_now w, dt_timeSpec = UTC\<rparr>\<rparr>) us"
proof (induction us arbitrary: w)
  case Nil
  show ?case by simp
next
  case (Cons u us)
  let ?w1 = "w\<lparr>w_db := (w_db w)\<lparr>m_deletedObjects :=
        deletedObjects w @ [\<lparr>do_uuid = u, deletionTime = \<lparr>dt_msecs = w_now w, dt_timeSpec = UTC\<rparr>\<rparr>]\<rparr>\<rparr>"
  from Cons[of ?w1] show ?case
    by (auto simp: addDeletedObject_uuid_eq deletedObjects_def)
qed

text \<open>
  Claim C6. \<open>addDeletedObject(identity)\<close> always succeeds and appends the tombstone of
  that identity with the current UTC time; a successful \<open>addDeletedObject(tombstone)\<close>
  appends its argument. Across any sequence of calls on the Database that runs to its end
  the ledger only grows and the tombstones it held at the start are still there, unchanged
  and at their positions; and a sequence of \<open>addDeletedObject(identity)\<close> calls always
  runs to its end, leaving the old ledger followed by one tombstone per call, in call order.
\<close>

theorem tombstone_ledger_append_only:
  "addDeletedObject_uuid u w =
     Inr (w\<lparr>w_db := (w_db w)\<lparr>m_deletedObjects :=
        deletedObjects w @ [\<lparr>do_uuid = u, deletionTime = \<lparr>dt_msecs = w_now w, dt_timeSpec = UTC\<rparr>\<rparr>]\<rparr>\<rparr>) \<and>
   (\<forall>x w'. addDeletedObject x w = Inr w' \<longrightarrow> deletedObjects w' = deletedObjects w @ [x]) \<and>
   (\<forall>cs w'. run tf cs w = Inr w' \<longrightarrow>
      length (deletedObjects w) \<le> length (deletedObjects w') \<and>
      take (length (deletedObjects w)) (deletedObjects w') = deletedObjects w) \<and>
   (\<exists>w'. run tf (map AddDeletedObjectUuid us) w = Inr w' \<and>
        deletedObjects w' = deletedObjects w @
          map (\<lambda>u. \<lparr>do_uuid = u, deletionTime = \<lparr>dt_msecs = w_now w, dt_timeSpec = UTC\<rparr>\<rparr>) us)"
proof (intro conjI allI impI)
  show "addDeletedObject_uuid u w =
     Inr (w\<lparr>w_db := (w_db w)\<lparr>m_deletedObjects :=
        deletedObjects w @ [\<lparr>do_uuid = u, deletionTime = \<lparr>dt_msecs = w_now w, dt_timeSpec = UTC\<rparr>\<rparr>]\<rparr>\<rparr>)"
    by (rule addDeletedObject_uuid_eq)
next
  fix x w' assume "addDeletedObject x w = Inr w'"
  then show "deletedObjects w' = deletedObjects w @ [x]"
    by (auto simp: addDeletedObject_def deletedObjects_def split: if_splits)
next
  fix cs w' assume r: "run tf cs w = Inr w'"
  from run_ledger[OF r] show "length (deletedObjects w) \<le> length (deletedObjects w')" by auto
  from run_ledger[OF r] show "take (length (deletedObjects w)) (deletedObjects w') = deletedObjects w"
    by auto
next
  show "\<exists>w'. run tf (map AddDeletedObjectUuid us) w = Inr w' \<and>
        deletedObjects w' = deletedObjects w @
          map (\<lambda>u. \<lparr>do_uuid = u, deletionTime = \<lparr>dt_msecs = w_now w, dt_timeSpec = UTC\<rparr>\<rparr>) us"
    by (rule run_uuids)
qed

theorem tombstone_ledger_append_only_witness:
  "deletedObjects example_fresh = [] \<and>
   addDeletedObject_uuid (example_uuid 7) example_fresh =
     Inr (example_fresh\<lparr>w_db := (w_db example_fresh)\<lparr>m_deletedObjects :=
        [\<lparr>do_uuid = example_uuid 7, deletionTime = \<lparr>dt_msecs = 1000, dt_timeSpec = UTC\<rparr>\<rparr>]\<rparr>\<rparr>) \<and>
   map_sum id deletedObjects
     (run example_transform
        [AddDeletedObjectUuid (example_uuid 7), Advance 5, AddDeletedObjectUuid (example_uuid 8),
         AddDeletedObject
           \<lparr>do_uuid = example_uuid 6, deletionTime = \<lparr>dt_msecs = 3, dt_timeSpec = UTC\<rparr>\<rparr>]
        example_fresh) =
     Inr [\<lparr>do_uuid = example_uuid 7, deletionTime = \<lparr>dt_msecs = 1000, dt_timeSpec = UTC\<rparr>\<rparr>,
          \<lparr>do_uuid = example_uuid 8, deletionTime = \<lparr>dt_msecs = 1005, dt_timeSpec = UTC\<rparr>\<rparr>,
          \<lparr>do_uuid = example_uuid 6, deletionTime = \<lparr>dt_msecs = 3, dt_timeSpec = UTC\<rparr>\<rparr>] \<and>
   map_sum id deletedObjects
     (run example_transform
        [AddDeletedObject
           \<lparr>do_uuid = example_uuid 6, deletionTime = \<lparr>dt_msecs = 3, dt_timeSpec = LocalTime\<rparr>\<rparr>]
        example_fresh) = Inl InvariantViolation"
  using tombstone_ledger_append_only [of "example_uuid 7" example_fresh example_transform
      "[example_uuid 7, example_uuid 8]"]
  by (simp add: deletedObjects_def example_fresh_db addDeletedObject_uuid_def addDeletedObject_def
      currentDateTimeUtc_def advance_def)

section \<open>The recycle policy\<close>

lemma group_ref_addEntry [simp]: "group_ref (addEntry t e g) = group_ref g"
  by (cases g) simp

lemma group_ref_removeEntry [simp]: "group_ref (removeEntry a g) = group_ref g"
  by (cases g) simp

lemma group_entries_addEntry:
  "group_entries (addEntry t e g) =
     (if group_ref g = t then group_entries g @ [e] else group_entries g)"
  by (cases g) simp

lemma group_entries_removeEntry:
  "group_entries (removeEntry a g) = filter (\<lambda>e. entry_ref e \<noteq> a) (group_entries g)"
  by (cases g) simp

lemma preorder_groups_addEntry:
  "preorder_groups (addEntry t e g) = map (addEntry t e) (preorder_groups g)"
  by (induction g) (simp add: map_concat comp_def cong: map_cong)

lemma preorder_groups_removeEntry:
  "preorder_groups (removeEntry a g) = map (removeEntry a) (preorder_groups g)"
  by (induction g) (simp add: map_concat comp_def cong: map_cong)

lemma preorder_entries_removeEntry:
  "preorder_entries (removeEntry a g) = filter (\<lambda>e. entry_ref e \<noteq> a) (preorder_entries g)"
  by (induction g) (simp add: filter_concat comp_def cong: map_cong)

lemma group_refs_Entry_setGroup: "group_refs (Entry_setGroup e t root) = group_refs root"
  by (simp add: group_refs_def Entry_setGroup_def preorder_groups_addEntry
      preorder_groups_removeEntry comp_def)

lemma group_refs_attachToRoot:
  "group_refs (attachToRoot (Group a u es []) root) = group_refs root @ [a]"
  by (cases root) (simp add: group_refs_def attachToRoot_def)

lemma find_map_comp: "find P (map f xs) = map_option f (find (\<lambda>x. P (f x)) xs)"
  by (induction xs) auto

lemma find_ref_present:
  "t \<in> set (map group_ref gs) \<Longrightarrow> \<exists>g. find (\<lambda>g. group_ref g = t) gs = Some g \<and> group_ref g = t"
  by (induction gs) auto

lemma Entry_group_setGroup:
  assumes "t \<in> set (group_refs root)"
  shows "Entry_group (entry_ref e) (Entry_setGroup e t root) = Some t"
proof -
  let ?f = "\<lambda>g. addEntry t e (removeEntry (entry_ref e) g)"
  have owns: "(entry_ref e \<in> set (map entry_ref (group_entries (?f g)))) = (group_ref g = t)" for g
    by (auto simp: group_entries_addEntry group_entries_removeEntry)
  have "preorder_groups (Entry_setGroup e t root) = map ?f (preorder_groups root)"
    by (simp add: Entry_setGroup_def preorder_groups_addEntry preorder_groups_removeEntry)
  then have "Entry_group (entry_ref e) (Entry_setGroup e t root) =
      map_option group_ref (map_option ?f (find (\<lambda>g. group_ref g = t) (preorder_groups root)))"
    unfolding Entry_group_def by (simp only: find_map_comp owns)
  moreover obtain g where "find (\<lambda>g. group_ref g = t) (preorder_groups root) = Some g"
      and "group_ref g = t"
    using find_ref_present[of t "preorder_groups root"] assms by (auto simp: group_refs_def)
  ultimately show ?thesis by simp
qed

lemma recycleBin_ensured:
  "recycleBin (if recycleBin w = None then createRecycleBin a u w else w) \<noteq> None"
  by (cases "recycleBin w")
     (simp_all add: recycleBin_def createRecycleBin_def setRecycleBin_def Let_def
        group_refs_attachToRoot Group_createRecycleBin_def)

lemma recycleEntry_creates:
  assumes "md_recycleBinEnabled (m_metadata (w_db w))" and "recycleBin w = None"
  shows "recycleEntry e a u w =
     w\<lparr>w_db := (w_db w)\<lparr>m_rootGroup :=
          Entry_setGroup e a (attachToRoot (Group a u [] []) (m_rootGroup (w_db w))),
        m_metadata := setRecycleBin a (m_metadata (w_db w))\<rparr>\<rparr>"
  using assms
  by (simp add: recycleEntry_def recycleBin_def createRecycleBin_def setRecycleBin_def Let_def
      group_refs_attachToRoot Group_createRecycleBin_def)

lemma recycleEntry_reuses:
  assumes "md_recycleBinEnabled (m_metadata (w_db w))" and "recycleBin w = Some b"
  shows "recycleEntry e a u w =
     w\<lparr>w_db := (w_db w)\<lparr>m_rootGroup := Entry_setGroup e b (m_rootGroup (w_db w))\<rparr>\<rparr>"
  using assms by (simp add: recycleEntry_def)

lemma recycleBin_after_setGroup:
  "recycleBin (w\<lparr>w_db := (w_db w)\<lparr>m_rootGroup := Entry_setGroup e t (m_rootGroup (w_db w))\<rparr>\<rparr>)
     = recycleBin w"
  by (simp add: recycleBin_def group_refs_Entry_setGroup split: option.splits)

lemma recycleBin_Some_present:
  "recycleBin w = Some b \<Longrightarrow> b \<in> set (group_refs (m_rootGroup (w_db w)))"
  by (auto simp: recycleBin_def split: option.splits if_splits)

lemma recycleEntry_first:
  assumes en: "md_recycleBinEnabled (m_metadata (w_db w))" and nb: "recycleBin w = None"
  shows "md_recycleBinEnabled (m_metadata (w_db (recycleEntry e a u w)))"
    and "recycleBin (recycleEntry e a u w) = Some a"
    and "group_refs (m_rootGroup (w_db (recycleEntry e a u w)))
           = group_refs (m_rootGroup (w_db w)) @ [a]"
    and "Entry_group (entry_ref e) (m_rootGroup (w_db (recycleEntry e a u w))) = Some a"
  unfolding recycleEntry_creates[OF en nb]
  using en
  by (simp_all add: setRecycleBin_def recycleBin_def group_refs_Entry_setGroup
      group_refs_attachToRoot Entry_group_setGroup)

lemma recycleEntry_next:
  assumes en: "md_recycleBinEnabled (m_metadata (w_db w))" and b: "recycleBin w = Some b"
  shows "recycleBin (recycleEntry e a u w) = Some b"
    and "md_recycleBinEnabled (m_metadata (w_db (recycleEntry e a u w)))"
    and "group_refs (m_rootGroup (w_db (recycleEntry e a u w))) = group_refs (m_rootGroup (w_db w))"
    and "Entry_group (entry_ref e) (m_rootGroup (w_db (recycleEntry e a u w))) = Some b"
  unfolding recycleEntry_reuses[OF en b]
  using en b recycleBin_Some_present[OF b]
  by (simp_all add: recycleBin_after_setGroup group_refs_Entry_setGroup Entry_group_setGroup)

lemma recycleEntries_keep:
  assumes "md_recycleBinEnabled (m_metadata (w_db w))" and "recycleBin w = Some b"
  shows "md_recycleBinEnabled (m_metadata (w_db (recycleEntries xs w))) \<and>
         recycleBin (recycleEntries xs w) = Some b \<and>
         group_refs (m_rootGroup (w_db (recycleEntries xs w))) = group_refs (m_rootGroup (w_db w))"
  using assms
proof (induction xs arbitrary: w)
  case Nil
  then show ?case by simp
next
  case (Cons x xs)
  obtain e a u where x: "x = (e, a, u)" by (cases x) auto
  note nxt = recycleEntry_next[OF Cons.prems, of e a u]
  from Cons.IH[OF nxt(2) nxt(1)] nxt(3) show ?case by (simp add: x)
qed

lemma recycleEntry_disabled:
  assumes "\<not> md_recycleBinEnabled (m_metadata (w_db w))"
  shows "preorder_entries (m_rootGroup (w_db (recycleEntry e a u w)))
           = filter (\<lambda>x. entry_ref x \<noteq> entry_ref e) (preorder_entries (m_rootGroup (w_db w)))"
  using assms by (simp add: recycleEntry_def Entry_delete_def preorder_entries_removeEntry)

lemma resolveEntry_in_tree:
  "resolveEntry i w = Some x \<Longrightarrow> x \<in> set (preorder_entries (m_rootGroup (w_db w)))"
  by (auto simp: resolveEntry_def recFindEntry_preorder find_Some_iff)

text \<open>
  Claim C3. With the recycle bin enabled and no recycle group present, \<open>recycleEntry(e)\<close>
  adds exactly one group to the tree, the new recycle group, which the Metadata then
  designates, and that group owns \<open>e\<close> afterwards; every \<open>recycleEntry\<close> after it,
  however many came in between, adds no group, keeps the same recycle group and makes it
  the owner of the entry it is given. With the
  recycle bin disabled, after \<open>recycleEntry(e)\<close> the object \<open>e\<close> is in no group of the tree,
  and \<open>resolveEntry\<close> returns it for no identity.
\<close>

theorem recycleEntry_policy:
  "(md_recycleBinEnabled (m_metadata (w_db w)) \<and> recycleBin w = None \<longrightarrow>
      recycleBin (recycleEntry e a u w) = Some a \<and>
      group_refs (m_rootGroup (w_db (recycleEntry e a u w)))
        = group_refs (m_rootGroup (w_db w)) @ [a] \<and>
      Entry_group (entry_ref e) (m_rootGroup (w_db (recycleEntry e a u w))) = Some a \<and>
      (\<forall>xs e2 a2 u2.
         recycleBin (recycleEntry e2 a2 u2 (recycleEntries xs (recycleEntry e a u w))) = Some a \<and>
         group_refs (m_rootGroup (w_db
             (recycleEntry e2 a2 u2 (recycleEntries xs (recycleEntry e a u w)))))
           = group_refs (m_rootGroup (w_db w)) @ [a] \<and>
         Entry_group (entry_ref e2) (m_rootGroup (w_db
             (recycleEntry e2 a2 u2 (recycleEntries xs (recycleEntry e a u w))))) = Some a)) \<and>
   (\<not> md_recycleBinEnabled (m_metadata (w_db w)) \<longrightarrow>
      entry_ref e \<notin> set (map entry_ref (preorder_entries (m_rootGroup (w_db (recycleEntry e a u w))))) \<and>
      (\<forall>i x. resolveEntry i (recycleEntry e a u w) = Some x \<longrightarrow> entry_ref x \<noteq> entry_ref e))"
proof (intro conjI impI allI)
  assume h: "md_recycleBinEnabled (m_metadata (w_db w)) \<and> recycleBin w = None"
  then have en: "md_recycleBinEnabled (m_metadata (w_db w))" and nb: "recycleBin w = None"
    by simp_all
  note first = recycleEntry_first[OF en nb, of e a u]
  show "recycleBin (recycleEntry e a u w) = Some a" by (rule first(2))
  show "group_refs (m_rootGroup (w_db (recycleEntry e a u w)))
        = group_refs (m_rootGroup (w_db w)) @ [a]" by (rule first(3))
  show "Entry_group (entry_ref e) (m_rootGroup (w_db (recycleEntry e a u w))) = Some a"
    by (rule first(4))
  fix xs e2 a2 u2
  let ?v = "recycleEntries xs (recycleEntry e a u w)"
  from recycleEntries_keep[OF first(1) first(2), of xs]
  have ven: "md_recycleBinEnabled (m_metadata (w_db ?v))" and vb: "recycleBin ?v = Some a"
    and vg: "group_refs (m_rootGroup (w_db ?v)) = group_refs (m_rootGroup (w_db w)) @ [a]"
    by (simp_all add: first(3))
  note nxt = recycleEntry_next[OF ven vb, of e2 a2 u2]
  show "recycleBin (recycleEntry e2 a2 u2 ?v) = Some a" by (rule nxt(1))
  show "group_refs (m_rootGroup (w_db (recycleEntry e2 a2 u2 ?v)))
           = group_refs (m_rootGroup (w_db w)) @ [a]" by (simp add: nxt(3) vg)
  show "Entry_group (entry_ref e2) (m_rootGroup (w_db (recycleEntry e2 a2 u2 ?v))) = Some a"
    by (rule nxt(4))
next
  assume d: "\<not> md_recycleBinEnabled (m_metadata (w_db w))"
  show "entry_ref e \<notin> set (map entry_ref (preorder_entries (m_rootGroup (w_db (recycleEntry e a u w)))))"
    by (auto simp: recycleEntry_disabled[OF d])
  fix i x assume "resolveEntry i (recycleEntry e a u w) = Some x"
  from resolveEntry_in_tree[OF this] show "entry_ref x \<noteq> entry_ref e"
    by (simp add: recycleEntry_disabled[OF d])
qed

theorem recycleEntry_policy_witness:
  "md_recycleBinEnabled (m_metadata (w_db example_vault)) \<and>
   recycleBin example_vault = None \<and>
   recycleBin (recycleEntry (Entry 12 (example_uuid 3)) 20 (example_uuid 30) example_vault) = Some 20 \<and>
   m_rootGroup (w_db (recycleEntry (Entry 12 (example_uuid 3)) 20 (example_uuid 30) example_vault)) =
     Group 1 (example_uuid 20) [Entry 10 (example_uuid 1)]
       [Group 2 (example_uuid 5) [Entry 11 (example_uuid 2)] [Group 3 (example_uuid 6) [] []],
        Group 4 (example_uuid 6) [Entry 13 (example_uuid 3), Entry 14 (example_uuid 2)] [],
        Group 20 (example_uuid 30) [Entry 12 (example_uuid 3)] []] \<and>
   Entry_group 12 (m_rootGroup (w_db
       (recycleEntry (Entry 12 (example_uuid 3)) 20 (example_uuid 30) example_vault))) = Some 20 \<and>
   m_rootGroup (w_db (recycleEntry (Entry 11 (example_uuid 2)) 21 (example_uuid 31)
       (recycleEntries []
          (recycleEntry (Entry 12 (example_uuid 3)) 20 (example_uuid 30) example_vault)))) =
     Group 1 (example_uuid 20) [Entry 10 (example_uuid 1)]
       [Group 2 (example_uuid 5) [] [Group 3 (example_uuid 6) [] []],
        Group 4 (example_uuid 6) [Entry 13 (example_uuid 3), Entry 14 (example_uuid 2)] [],
        Group 20 (example_uuid 30) [Entry 12 (example_uuid 3), Entry 11 (example_uuid 2)] []] \<and>
   \<not> md_recycleBinEnabled (m_metadata (w_db example_vault_norecycle)) \<and>
   resolveEntry (example_uuid 3) example_vault_norecycle = Some (Entry 12 (example_uuid 3)) \<and>
   resolveEntry (example_uuid 3)
     (recycleEntry (Entry 12 (example_uuid 3)) 20 (example_uuid 30) example_vault_norecycle)
     = Some (Entry 13 (example_uuid 3)) \<and>
   resolveEntry (example_uuid 1)
     (recycleEntry (Entry 10 (example_uuid 1)) 20 (example_uuid 30) example_vault_norecycle)
     = None"
  using recycleEntry_policy [of example_vault "Entry 12 (example_uuid 3)" 20 "example_uuid 30"]
    recycleEntry_policy [of example_vault_norecycle "Entry 12 (example_uuid 3)" 20 "example_uuid 30"]
  by (simp add: recycleEntry_def recycleBin_def createRecycleBin_def setRecycleBin_def Let_def
      Group_createRecycleBin_def attachToRoot_def Entry_setGroup_def Entry_delete_def
      Entry_group_def group_refs_def resolveEntry_def example_uuid_def
      example_vault_db example_vault_norecycle_db example_metadata_def example_tree_def)

section \<open>The change notifier\<close>

lemma emit_enabled:
  "m_emitModified (w_db w) \<Longrightarrow>
   emit_modifiedImmediate w =
     w\<lparr>w_db := (w_db w)\<lparr>m_timer := Pending (w_now w + 150)\<rparr>,
       w_signals := w_signals w @ [(w_now w, ModifiedImmediate)]\<rparr>"
  by (simp add: emit_modifiedImmediate_def startModifiedTimer_def Let_def QTimer_start_def)

lemma emit_disabled:
  "\<not> m_emitModified (w_db w) \<Longrightarrow>
   emit_modifiedImmediate w = w\<lparr>w_signals := w_signals w @ [(w_now w, ModifiedImmediate)]\<rparr>"
  by (simp add: emit_modifiedImmediate_def startModifiedTimer_def)

lemma advance_pending_early:
  "m_timer (w_db w) = Pending e \<Longrightarrow> w_now w + dt < e \<Longrightarrow> advance dt w = w\<lparr>w_now := w_now w + dt\<rparr>"
  by (simp add: advance_def)

lemma advance_pending_due:
  "m_timer (w_db w) = Pending e \<Longrightarrow> e \<le> w_now w + dt \<Longrightarrow>
   advance dt w = w\<lparr>w_db := (w_db w)\<lparr>m_timer := Inactive\<rparr>, w_now := w_now w + dt,
                    w_signals := w_signals w @ [(e, Modified)]\<rparr>"
  by (simp add: advance_def)

lemma burst_state:
  assumes "m_emitModified (w_db w)" and "gap < 150"
  shows "m_emitModified (w_db (burst (Suc n) gap w)) \<and>
         m_timer (w_db (burst (Suc n) gap w)) = Pending (w_now w + n * gap + 150) \<and>
         w_now (burst (Suc n) gap w) = w_now w + n * gap \<and>
         modifiedSignals (w_signals (burst (Suc n) gap w)) = modifiedSignals (w_signals w)"
proof (induction n)
  case 0
  show ?case using assms(1) by (simp add: emit_enabled modifiedSignals_def)
next
  case (Suc n)
  let ?b = "burst (Suc n) gap w"
  have adv: "advance gap ?b = ?b\<lparr>w_now := w_now ?b + gap\<rparr>"
    using Suc assms(2) by (intro advance_pending_early[where e = "w_now w + n * gap + 150"]) auto
  have en: "m_emitModified (w_db (advance gap ?b))"
    using Suc by (simp add: adv)
  have eq: "burst (Suc (Suc n)) gap w =
      (advance gap ?b)\<lparr>w_db := (w_db (advance gap ?b))\<lparr>m_timer := Pending (w_now (advance gap ?b) + 150)\<rparr>,
        w_signals := w_signals (advance gap ?b) @ [(w_now (advance gap ?b), ModifiedImmediate)]\<rparr>"
    using emit_enabled[OF en] by simp
  show ?case
    unfolding eq adv using Suc by (simp add: modifiedSignals_def algebra_simps)
qed

lemma advance_at_most_one:
  "length (modifiedSignals (w_signals (advance d w))) \<le> Suc (length (modifiedSignals (w_signals w)))"
  by (simp add: advance_def modifiedSignals_def split: qTimer.splits)

text \<open>
  Claim C7. With notification enabled, an immediate event leaves the timer pending with
  expiry 150 time units after that event, whatever the timer was before. Five immediate
  events 10 units apart emit no \<open>modified()\<close> of their own and leave the timer pending for
  150 units after the fifth; letting \<open>d\<close> more units pass emits exactly one \<open>modified()\<close>,
  at that expiry time, when \<open>d\<close> is at least 150, and none when it is less. The timer holds
  one expiry time at most, and however much time passes at once, in any state, at most one
  \<open>modified()\<close> is emitted.
\<close>

theorem debounce_coalesces_burst:
  assumes "m_emitModified (w_db w)"
  shows "m_timer (w_db (emit_modifiedImmediate w)) = Pending (w_now w + 150) \<and>
         w_now (burst 5 10 w) = w_now w + 40 \<and>
         m_timer (w_db (burst 5 10 w)) = Pending (w_now w + 40 + 150) \<and>
         modifiedSignals (w_signals (burst 5 10 w)) = modifiedSignals (w_signals w) \<and>
         modifiedSignals (w_signals (advance d (burst 5 10 w))) =
           modifiedSignals (w_signals w) @ (if 150 \<le> d then [(w_now w + 40 + 150, Modified)] else []) \<and>
         m_timer (w_db (advance d (burst 5 10 w))) =
           (if 150 \<le> d then Inactive else Pending (w_now w + 40 + 150)) \<and>
         length (modifiedSignals (w_signals (advance d' w')))
           \<le> Suc (length (modifiedSignals (w_signals w')))"
proof -
  have five: "(5::nat) = Suc 4" by simp
  have b: "m_timer (w_db (burst 5 10 w)) = Pending (w_now w + 40 + 150)"
    "w_now (burst 5 10 w) = w_now w + 40"
    "modifiedSignals (w_signals (burst 5 10 w)) = modifiedSignals (w_signals w)"
    using burst_state[OF assms, of 10 4] unfolding five by simp_all
  have fire: "modifiedSignals (w_signals (advance d (burst 5 10 w))) =
           modifiedSignals (w_signals w) @ (if 150 \<le> d then [(w_now w + 40 + 150, Modified)] else [])"
    using b by (simp add: advance_def modifiedSignals_def)
  have tm: "m_timer (w_db (advance d (burst 5 10 w))) =
           (if 150 \<le> d then Inactive else Pending (w_now w + 40 + 150))"
    using b by (simp add: advance_def)
  show ?thesis
    using b fire tm assms advance_at_most_one[of d' w'] by (simp add: emit_enabled)
qed

theorem debounce_coalesces_burst_witness:
  "m_emitModified (w_db (setEmitModified True example_fresh)) \<and>
   w_now (setEmitModified True example_fresh) = 1000 \<and>
   modifiedSignals (w_signals (advance 150 (burst 5 10 (setEmitModified True example_fresh))))
     = [(1190, Modified)] \<and>
   modifiedSignals (w_signals (advance 149 (burst 5 10 (setEmitModified True example_fresh)))) = [] \<and>
   m_timer (w_db (advance 149 (burst 5 10 (setEmitModified True example_fresh)))) = Pending 1190"
  using debounce_coalesces_burst [of "setEmitModified True example_fresh" 150 0 example_fresh]
    debounce_coalesces_burst [of "setEmitModified True example_fresh" 149 0 example_fresh]
  by (simp add: setEmitModified_def Let_def example_fresh_db modifiedSignals_def)

lemma step_quiet:
  assumes "step tf c w = Inr w'" and "c \<noteq> SetEmitModified True"
    and "\<not> m_emitModified (w_db w)" and "m_timer (w_db w) = Inactive"
    and "modifiedSignals (w_signals w) = []"
  shows "\<not> m_emitModified (w_db w') \<and> m_timer (w_db w') = Inactive \<and>
         modifiedSignals (w_signals w') = []"
  using assms
  by (cases c)
     (auto simp: call_defs Let_def QTimer_stop_def modifiedSignals_def
        split: if_splits option.splits)

lemma run_quiet:
  assumes "run tf cs w = Inr w'" and "SetEmitModified True \<notin> set cs"
    and "\<not> m_emitModified (w_db w)" and "m_timer (w_db w) = Inactive"
    and "modifiedSignals (w_signals w) = []"
  shows "\<not> m_emitModified (w_db w') \<and> m_timer (w_db w') = Inactive \<and>
         modifiedSignals (w_signals w') = []"
  using assms
proof (induction cs arbitrary: w)
  case Nil
  then show ?case by simp
next
  case (Cons c cs)
  from Cons.prems(1) obtain w1 where s: "step tf c w = Inr w1" and r: "run tf cs w1 = Inr w'"
    by (auto split: sum.splits)
  have "c \<noteq> SetEmitModified True" using Cons.prems(2) by auto
  from step_quiet[OF s this Cons.prems(3,4,5)] Cons.prems(2) r show ?case
    by (intro Cons.IH[of w1]) auto
qed

text \<open>
  Claim C10. A freshly constructed Database has \<open>m_emitModified\<close> false and its timer
  inactive, and as long as no \<open>setEmitModified(true)\<close> is among the calls made on it, whatever
  the calls and however much time passes, notification stays disabled, the timer is never
  started and no \<open>modified()\<close> is emitted.
\<close>

theorem fresh_database_never_notifies:
  assumes "run tf cs \<lparr>w_db = fst (Database_ctor this rnd_uuid rnd_root root_ref md0 k0 aes reg),
                      w_now = t0, w_signals = []\<rparr> = Inr w'"
    and "SetEmitModified True \<notin> set cs"
  shows "\<not> m_emitModified (w_db w') \<and> m_timer (w_db w') = Inactive \<and>
         modifiedSignals (w_signals w') = []"
  by (rule run_quiet[OF assms]) (simp_all add: Database_ctor_def modifiedSignals_def)

theorem fresh_database_never_notifies_witness:
  "SetEmitModified True \<notin>
     set [SetKey [5] [1] True, MetadataModified, Advance 1000, SetEmitModified False, SetKeyKey [6] [2]] \<and>
   \<not> isl (run example_transform
       [SetKey [5] [1] True, MetadataModified, Advance 1000, SetEmitModified False, SetKeyKey [6] [2]]
       example_fresh) \<and>
   m_timer (w_db (projr (run example_transform
       [SetKey [5] [1] True, MetadataModified, Advance 1000, SetEmitModified False, SetKeyKey [6] [2]]
       example_fresh))) = Inactive \<and>
   modifiedSignals (w_signals (projr (run example_transform
       [SetKey [5] [1] True, MetadataModified, Advance 1000, SetEmitModified False, SetKeyKey [6] [2]]
       example_fresh))) = [] \<and>
   modifiedSignals (w_signals (projr (run example_transform
       [SetEmitModified True, MetadataModified, Advance 150] example_fresh))) = [(1150, Modified)]"
proof -
  let ?cs = "[SetKey [5] [1] True, MetadataModified, Advance 1000, SetEmitModified False,
              SetKeyKey [6] [2]] :: byteArray call list"
  have fresh: "example_fresh =
      \<lparr>w_db = fst (Database_ctor 1 (example_uuid 1) (example_uuid 2) 7 example_metadata []
                (example_uuid 9) Map.empty),
       w_now = 1000, w_signals = []\<rparr>"
    by (simp add: example_fresh_def)
  have r: "run example_transform ?cs example_fresh = Inr (projr (run example_transform ?cs example_fresh))"
    by simp
  have nt: "SetEmitModified True \<notin> set ?cs" by simp
  have on: "modifiedSignals (w_signals (projr (run example_transform
       [SetEmitModified True, MetadataModified, Advance 150] example_fresh))) = [(1150, Modified)]"
    by (simp add: setEmitModified_def Metadata_modified_def emit_modifiedImmediate_def
        startModifiedTimer_def advance_def Let_def isActive_def QTimer_start_def
        example_fresh_db modifiedSignals_def)
  show ?thesis
    using fresh_database_never_notifies [OF r [unfolded fresh] nt] r nt on
    by (simp add: fresh)
qed

section \<open>The identity registry\<close>

text \<open>
  Claim C8, as the code has it. When the registry already holds an identity and the
  constructor of another Database draws that same identity, the construction does not fail:
  \<open>m_uuidMap.insert\<close> replaces the registration, so that looking the identity up returns the
  new instance; the registrations of the other identities are unchanged.
\<close>

theorem registry_insert_replaces:
  assumes "databaseByUuid i reg = Some other"
  shows "databaseByUuid i (snd (Database_ctor this i rnd_root root_ref md0 k0 aes reg)) = Some this \<and>
         m_uuid (fst (Database_ctor this i rnd_root root_ref md0 k0 aes reg)) = i \<and>
         (\<forall>j. j \<noteq> i \<longrightarrow>
            databaseByUuid j (snd (Database_ctor this i rnd_root root_ref md0 k0 aes reg)) =
            databaseByUuid j reg)"
  by (simp add: databaseByUuid_def Database_ctor_def)

theorem registry_insert_replaces_witness:
  "databaseByUuid (example_uuid 1) example_registry = Some 1 \<and>
   databaseByUuid (example_uuid 1)
     (snd (Database_ctor 2 (example_uuid 1) (example_uuid 4) 8 example_metadata ([] :: byteArray)
             (example_uuid 9) example_registry))
     = Some 2 \<and>
   m_uuid (fst (Database_ctor 2 (example_uuid 1) (example_uuid 4) 8 example_metadata
                  ([] :: byteArray) (example_uuid 9) example_registry))
     = example_uuid 1"
  using registry_insert_replaces [of "example_uuid 1" example_registry 1 2 "example_uuid 4" 8
      example_metadata "[] :: byteArray" "example_uuid 9"]
  by (simp add: example_registry_def databaseByUuid_def Database_ctor_def)

text \<open>
  The claim as the spec words it (the second registration is refused and the first one
  stays) fails: with instance 1 registered under an identity, constructing instance 2 with
  the same identity leaves a registry in which the identity no longer leads to instance 1.
\<close>

theorem registry_rejects_duplicate_counterexample:
  "databaseByUuid (example_uuid 1) example_registry = Some 1 \<and>
   databaseByUuid (example_uuid 1)
     (snd (Database_ctor 2 (example_uuid 1) (example_uuid 4) 8 example_metadata ([] :: byteArray)
             (example_uuid 9) example_registry))
     \<noteq> Some 1"
  by (simp add: example_registry_def databaseByUuid_def Database_ctor_def)

end
